theory Spec2Isabelle
  imports Main
begin

section \<open>JavaScript values read by the handlers\<close>

text \<open>
  A JavaScript string is modelled as a list of code units below 256. \<open>String.prototype.trim\<close>
  strips white space and line terminators from both ends; below 256 these are the code
  units 9 to 13, 32 and 160.
\<close>

definition is_ws :: "char \<Rightarrow> bool" where
  "is_ws c = (c \<in> set [CHR 0x09, CHR 0x0A, CHR 0x0B, CHR 0x0C, CHR 0x0D, CHR 0x20, CHR 0xA0])"

definition trim :: "string \<Rightarrow> string" where
  "trim s = rev (dropWhile is_ws (rev (dropWhile is_ws s)))"

text \<open>
  \<open>req.user\<close> as \<open>authenticateToken\<close> sets it (the nested \<open>profile\<close> object is left
  out), and the parts of an Express request the handlers and the middleware can see:
  \<open>req.params.id\<close>, \<open>req.user\<close>, \<open>req.ip\<close>, \<open>req.headers.authorization\<close> and
  \<open>req.query.token\<close>. A property that is \<open>undefined\<close> is \<open>None\<close>.
\<close>

record auth_user =
  userId :: string
  email :: string
  role :: string

record request =
  params_id :: "string option"
  user :: "auth_user option"
  ip :: "string option"
  authorization :: "string option"
  query_token :: "string option"

text \<open>
  A JSON object sent to the store: keys in source order, each value a string or \<open>null\<close>
  (\<open>None\<close>). Looking a key up with \<open>map_of\<close> gives \<open>None\<close> for an absent key,
  \<open>Some None\<close> for \<open>null\<close>.
\<close>

type_synonym json_row = "(string \<times> string option) list"


section \<open>The record store\<close>

datatype db_error =
    UndefinedColumn string
  | InvalidInput string
  | NotNullViolation string
  | UniqueViolation string
  | Unavailable string

subsection \<open>Input functions of the column types\<close>

text \<open>
  A text arriving for a column of type \<open>uuid\<close> is read as PostgreSQL reads it: an
  optional opening brace, sixteen bytes of two hexadecimal digits each, a hyphen allowed
  after every second byte but the last, the closing brace if there was an opening one,
  and nothing after. The value is kept in the form PostgreSQL prints: lower case,
  grouped 8-4-4-4-12.
\<close>

definition is_hex :: "char \<Rightarrow> bool" where
  "is_hex c = (c \<in> set ''0123456789abcdefABCDEF'')"

definition lower_hex :: "char \<Rightarrow> char" where
  "lower_hex c = (case map_of (zip ''ABCDEF'' ''abcdef'') c of Some d \<Rightarrow> d | None \<Rightarrow> c)"

fun uuid_bytes :: "nat \<Rightarrow> string \<Rightarrow> (string \<times> string) option" where
  "uuid_bytes 0 src = Some ([], src)"
| "uuid_bytes (Suc k) (a # b # src) =
     (if is_hex a \<and> is_hex b
      then (let i = 15 - k;
                src' = (if take 1 src = ''-'' \<and> odd i \<and> i < 15 then drop 1 src else src)
            in case uuid_bytes k src' of
                 None \<Rightarrow> None
               | Some (ds, rest) \<Rightarrow> Some (lower_hex a # lower_hex b # ds, rest))
      else None)"
| "uuid_bytes (Suc k) src = None"

definition uuid_in :: "string \<Rightarrow> string option" where
  "uuid_in source =
     (let braces = (take 1 source = ''{'');
          src = (if braces then drop 1 source else source)
      in case uuid_bytes 16 src of
           None \<Rightarrow> None
         | Some (ds, rest) \<Rightarrow>
             if rest = (if braces then ''}'' else [])
             then Some (take 8 ds @ ''-'' @ take 4 (drop 8 ds) @ ''-'' @ take 4 (drop 12 ds) @
                        ''-'' @ take 4 (drop 16 ds) @ ''-'' @ drop 20 ds)
             else None)"

text \<open>
  A text arriving for a column of type \<open>date\<close> keeps its calendar date. The notation
  read here is ISO 8601, the one \<open>toISOString\<close> writes: a year of four digits, month
  and day of one or two digits, then nothing or a time of day after \<open>T\<close> or a blank,
  with or without a zone. Month, day and time must exist; the date is kept as
  PostgreSQL prints it, \<open>YYYY-MM-DD\<close>. PostgreSQL reads further notations (month names,
  other field orders); they are answered with an input error here, and no property
  below depends on a text being refused.
\<close>

definition is_digit :: "char \<Rightarrow> bool" where
  "is_digit c = (c \<in> set ''0123456789'')"

definition read_nat :: "string \<Rightarrow> nat option" where
  "read_nat s =
     (if s \<noteq> [] \<and> list_all is_digit s
      then Some (foldl (\<lambda>n c. 10 * n + (of_char c - 48)) 0 s)
      else None)"

fun split_on :: "char \<Rightarrow> string \<Rightarrow> string list" where
  "split_on c [] = [[]]"
| "split_on c (x # xs) =
     (if x = c then [] # split_on c xs
      else (case split_on c xs of w # ws \<Rightarrow> (x # w) # ws | [] \<Rightarrow> [[x]]))"

definition days_in_month :: "nat \<Rightarrow> nat \<Rightarrow> nat" where
  "days_in_month y m =
     (if m = 2 then (if y mod 4 = 0 \<and> (y mod 100 \<noteq> 0 \<or> y mod 400 = 0) then 29 else 28)
      else if m \<in> set [4, 6, 9, 11] then 30 else 31)"

definition pad2 :: "string \<Rightarrow> string" where
  "pad2 s = (if length s = 1 then CHR ''0'' # s else s)"

definition below :: "nat \<Rightarrow> string \<Rightarrow> bool" where
  "below n s = (case read_nat s of None \<Rightarrow> False | Some v \<Rightarrow> length s \<le> 2 \<and> v < n)"

definition time_zone :: "string \<Rightarrow> bool" where
  "time_zone z =
     (z = [] \<or> z = ''Z'' \<or>
      (take 1 z \<in> set [''+'', ''-''] \<and>
       (case split_on CHR '':'' (drop 1 z) of
          [h] \<Rightarrow> below 16 h
        | [h, m] \<Rightarrow> below 16 h \<and> below 60 m
        | _ \<Rightarrow> False)))"

definition seconds :: "string \<Rightarrow> bool" where
  "seconds s =
     (case split_on CHR ''.'' s of
        [w] \<Rightarrow> below 60 w
      | [w, f] \<Rightarrow> below 60 w \<and> read_nat f \<noteq> None
      | _ \<Rightarrow> False)"

definition time_of_day :: "string \<Rightarrow> bool" where
  "time_of_day t =
     (let clock = takeWhile (\<lambda>c. is_digit c \<or> c \<in> set '':.'') t;
          zone = dropWhile (\<lambda>c. is_digit c \<or> c \<in> set '':.'') t
      in time_zone zone \<and>
         (case split_on CHR '':'' clock of
            [h, m] \<Rightarrow> below 24 h \<and> below 60 m
          | [h, m, s] \<Rightarrow> below 24 h \<and> below 60 m \<and> seconds s
          | _ \<Rightarrow> False))"

definition date_of :: "string \<Rightarrow> string option" where
  "date_of s =
     (let d = takeWhile (\<lambda>c. c \<notin> set ''T '') s;
          r = dropWhile (\<lambda>c. c \<notin> set ''T '') s
      in case split_on CHR ''-'' d of
           [y, m, dd] \<Rightarrow>
             (case (read_nat y, read_nat m, read_nat dd) of
                (Some Y, Some M, Some D) \<Rightarrow>
                  if length y = 4 \<and> length m \<le> 2 \<and> length dd \<le> 2 \<and>
                     1 \<le> Y \<and> 1 \<le> M \<and> M \<le> 12 \<and> 1 \<le> D \<and> D \<le> days_in_month Y M \<and>
                     (r = [] \<or> time_of_day (drop 1 r))
                  then Some (y @ ''-'' @ pad2 m @ ''-'' @ pad2 dd)
                  else None
              | _ \<Rightarrow> None)
         | _ \<Rightarrow> None)"

text \<open>
  A text for the column \<open>viewed_at\<close> must be a date with or without a time in the same
  notation; it is kept as written.
\<close>

definition timestamptz_in :: "string \<Rightarrow> string option" where
  "timestamptz_in s = (case date_of s of None \<Rightarrow> None | Some d \<Rightarrow> Some s)"

subsection \<open>Table \<open>public.property_views\<close>\<close>

text \<open>
  The table as \<open>CREATE TABLE public.property_views\<close> declares it, with the later
  \<open>SET NOT NULL\<close> alterations and the unique index \<open>unique_ip_view_24h\<close> on
  \<open>(property_id, ip_address, viewed_date)\<close>. A row holds the values as PostgreSQL
  prints them. The generated surrogate key \<open>id\<close> and the two foreign keys are not
  modelled: a value given for \<open>id\<close> is ignored. Rows are kept in insertion order.
\<close>

record pv_row =
  property_id :: string
  profiles_id :: "string option"
  viewed_at :: string
  ip_address :: string
  viewed_date :: string

definition property_views_columns :: "string list" where
  "property_views_columns =
     [''id'', ''property_id'', ''profiles_id'', ''viewed_at'', ''ip_address'', ''viewed_date'']"

text \<open>The columns of the unique index \<open>unique_ip_view_24h\<close>.\<close>

definition unique_ip_view_24h :: "pv_row \<Rightarrow> string \<times> string \<times> string" where
  "unique_ip_view_24h r = (property_id r, ip_address r, viewed_date r)"

text \<open>
  Storing a row of typed values: the unique index rejects a row whose index columns equal
  those of a stored row, and the table stays as it was.
\<close>

definition insert_row :: "pv_row \<Rightarrow> pv_row list \<Rightarrow> db_error + pv_row list" where
  "insert_row r t =
     (if unique_ip_view_24h r \<in> set (map unique_ip_view_24h t)
      then Inl (UniqueViolation ''unique_ip_view_24h'')
      else Inr (t @ [r]))"

text \<open>
  What a JSON row says about one column: the key is absent, its value is \<open>null\<close>, or it
  is a text. \<open>convert\<close> runs the input function of the column's type on a text
  (\<open>None\<close> where the text is refused); \<open>not_null\<close> is the value a \<open>NOT NULL\<close> column
  receives, with the column default for an absent key (\<open>None\<close> a violation).
\<close>

datatype cell = Absent | Null | Text string

definition cell :: "json_row \<Rightarrow> string \<Rightarrow> cell" where
  "cell p k = (case map_of p k of None \<Rightarrow> Absent | Some None \<Rightarrow> Null | Some (Some s) \<Rightarrow> Text s)"

definition convert :: "(string \<Rightarrow> string option) \<Rightarrow> cell \<Rightarrow> cell option" where
  "convert input c = (case c of Text s \<Rightarrow> map_option Text (input s) | _ \<Rightarrow> Some c)"

definition not_null :: "string option \<Rightarrow> cell \<Rightarrow> string option" where
  "not_null dflt c = (case c of Absent \<Rightarrow> dflt | Null \<Rightarrow> None | Text s \<Rightarrow> Some s)"

definition nullable :: "cell \<Rightarrow> string option" where
  "nullable c = (case c of Text s \<Rightarrow> Some s | _ \<Rightarrow> None)"

text \<open>
  \<open>INSERT\<close> of one JSON row; \<open>db_now\<close> is the store's clock, the default of
  \<open>viewed_at\<close>. In this order: a key that is no column of the table is refused; the
  texts are converted to the column types; a \<open>NULL\<close> in a \<open>NOT NULL\<close> column is
  refused; the row goes to the table and its unique index.
\<close>

definition pv_insert :: "string \<Rightarrow> json_row \<Rightarrow> pv_row list \<Rightarrow> db_error + pv_row list" where
  "pv_insert db_now p t =
     (case filter (\<lambda>k. k \<notin> set property_views_columns) (map fst p) of
        k # _ \<Rightarrow> Inl (UndefinedColumn k)
      | [] \<Rightarrow>
     (case convert uuid_in (cell p ''property_id'') of
        None \<Rightarrow> Inl (InvalidInput ''property_id'')
      | Some c_property \<Rightarrow>
     (case convert uuid_in (cell p ''profiles_id'') of
        None \<Rightarrow> Inl (InvalidInput ''profiles_id'')
      | Some c_profile \<Rightarrow>
     (case convert timestamptz_in (cell p ''viewed_at'') of
        None \<Rightarrow> Inl (InvalidInput ''viewed_at'')
      | Some c_at \<Rightarrow>
     (case convert date_of (cell p ''viewed_date'') of
        None \<Rightarrow> Inl (InvalidInput ''viewed_date'')
      | Some c_date \<Rightarrow>
     (case not_null None c_property of
        None \<Rightarrow> Inl (NotNullViolation ''property_id'')
      | Some pid \<Rightarrow>
     (case not_null (Some db_now) c_at of
        None \<Rightarrow> Inl (NotNullViolation ''viewed_at'')
      | Some vat \<Rightarrow>
     (case not_null None (cell p ''ip_address'') of
        None \<Rightarrow> Inl (NotNullViolation ''ip_address'')
      | Some addr \<Rightarrow>
     (case not_null None c_date of
        None \<Rightarrow> Inl (NotNullViolation ''viewed_date'')
      | Some d \<Rightarrow>
          insert_row \<lparr>property_id = pid, profiles_id = nullable c_profile,
                      viewed_at = vat, ip_address = addr, viewed_date = d\<rparr> t)))))))))"

subsection \<open>Row level security\<close>

text \<open>
  The schema enables row level security on \<open>property_views\<close> and creates no policy on
  it. A statement of the service-role client (\<open>supabaseAdmin\<close>) bypasses row level
  security; a statement of the anonymous client (\<open>supabase\<close>) sees the rows that some
  policy of the table admits, so with no policy it sees none.
\<close>

datatype db_role = ServiceRole | Anon

definition property_views_policies :: "(pv_row \<Rightarrow> bool) list" where
  "property_views_policies = []"

definition visible :: "db_role \<Rightarrow> pv_row \<Rightarrow> bool" where
  "visible rl r =
     (case rl of
        ServiceRole \<Rightarrow> True
      | Anon \<Rightarrow> list_ex (\<lambda>policy. policy r) property_views_policies)"

text \<open>
  \<open>.select('*', { count: 'exact', head: true }).eq('property_id', propertyId)\<close> run by
  a client: the text is converted to \<open>uuid\<close>, and the rows the client sees with that
  \<open>property_id\<close> are counted; no rows are returned and there is no other filter.
\<close>

definition select_count :: "db_role \<Rightarrow> string \<Rightarrow> pv_row list \<Rightarrow> db_error + nat" where
  "select_count rl propertyId t =
     (case uuid_in propertyId of
        None \<Rightarrow> Inl (InvalidInput ''property_id'')
      | Some u \<Rightarrow> Inr (length (filter (\<lambda>r. visible rl r \<and> property_id r = u) t)))"

text \<open>The count as the handlers run it, through the anonymous client.\<close>

definition pv_count :: "string \<Rightarrow> pv_row list \<Rightarrow> db_error + nat" where
  "pv_count propertyId t = select_count Anon propertyId t"

section \<open>The property-view routes\<close>

text \<open>
  What a handler asked of the store, in order, and what it answered to the caller:
  \<open>{ success: false, error }\<close> or \<open>{ success: true, data: { count } }\<close> with the HTTP
  status.
\<close>

datatype store_op = InsertView json_row | CountViews string

datatype view_body = Failure string | Success nat

record response =
  status :: nat
  body :: view_body

text \<open>The object the POST handler inserts; \<open>now_iso\<close> is \<open>new Date().toISOString()\<close>.\<close>

definition view_payload :: "string \<Rightarrow> string \<Rightarrow> request \<Rightarrow> json_row" where
  "view_payload propertyId now_iso req =
     [(''property_id'', Some propertyId),
      (''viewed_date'', Some now_iso),
      (''user_id'', (case user req of Some u \<Rightarrow> Some (userId u) | None \<Rightarrow> None))]"

text \<open>
  \<open>router.post('/:id')\<close>, the operation the specification calls recordView. The
  store is a parameter: \<open>ins\<close> is the insert through the service-role client, \<open>cnt\<close>
  the count through the anonymous client. The result is the response, the store after
  the call and the store operations attempted.
\<close>

definition recordView ::
  "(json_row \<Rightarrow> 'db \<Rightarrow> db_error + 'db) \<Rightarrow> (string \<Rightarrow> 'db \<Rightarrow> db_error + nat) \<Rightarrow>
   string \<Rightarrow> request \<Rightarrow> 'db \<Rightarrow> response \<times> 'db \<times> store_op list" where
  "recordView ins cnt now_iso req db =
     (case map_option trim (params_id req) of
        None \<Rightarrow> (\<lparr>status = 400, body = Failure ''Invalid property ID''\<rparr>, db, [])
      | Some propertyId \<Rightarrow>
          if propertyId = [] then (\<lparr>status = 400, body = Failure ''Invalid property ID''\<rparr>, db, [])
          else
            (let row = view_payload propertyId now_iso req in
             case ins row db of
               Inl insertError \<Rightarrow>
                 (\<lparr>status = 500, body = Failure ''Failed to record property view''\<rparr>, db,
                  [InsertView row])
             | Inr db' \<Rightarrow>
                 (case cnt propertyId db' of
                    Inl countError \<Rightarrow>
                      (\<lparr>status = 500, body = Failure ''Failed to record property view''\<rparr>, db',
                       [InsertView row, CountViews propertyId])
                  | Inr count \<Rightarrow>
                      (\<lparr>status = 200, body = Success count\<rparr>, db',
                       [InsertView row, CountViews propertyId]))))"

text \<open>\<open>router.get('/:id')\<close>, the operation the specification calls getViewCount.\<close>

definition getViewCount ::
  "(string \<Rightarrow> 'db \<Rightarrow> db_error + nat) \<Rightarrow> request \<Rightarrow> 'db \<Rightarrow> response \<times> 'db \<times> store_op list" where
  "getViewCount cnt req db =
     (case map_option trim (params_id req) of
        None \<Rightarrow> (\<lparr>status = 400, body = Failure ''Invalid property ID''\<rparr>, db, [])
      | Some propertyId \<Rightarrow>
          if propertyId = [] then (\<lparr>status = 400, body = Failure ''Invalid property ID''\<rparr>, db, [])
          else
            (case cnt propertyId db of
               Inl error \<Rightarrow>
                 (\<lparr>status = 500, body = Failure ''Failed to fetch property view count''\<rparr>, db,
                  [CountViews propertyId])
             | Inr count \<Rightarrow>
                 (\<lparr>status = 200, body = Success count\<rparr>, db, [CountViews propertyId])))"

text \<open>
  Calls served one after the other, each with its own clock reading. Every statement of
  a call is atomic in the store and only the insert writes, so the table that several
  calls in flight leave is the table of their inserts in the order the store ran them.
\<close>

fun recordViews ::
  "(json_row \<Rightarrow> 'db \<Rightarrow> db_error + 'db) \<Rightarrow> (string \<Rightarrow> 'db \<Rightarrow> db_error + nat) \<Rightarrow>
   (string \<times> request) list \<Rightarrow> 'db \<Rightarrow> response list \<times> 'db" where
  "recordViews ins cnt [] db = ([], db)"
| "recordViews ins cnt ((now_iso, req) # calls) db =
     (case recordView ins cnt now_iso req db of
        (res, db', ops) \<Rightarrow>
          (case recordViews ins cnt calls db' of (rs, db'') \<Rightarrow> (res # rs, db'')))"


text \<open>
  The tables the store can hold: rows are only ever inserted, by any client and with
  any values, never updated or deleted.
\<close>

inductive reachable :: "pv_row list \<Rightarrow> bool" where
  empty_table: "reachable []"
| inserted: "reachable t \<Longrightarrow> insert_row r t = Inr t' \<Longrightarrow> reachable t'"

section \<open>Authentication middleware and route mounting\<close>

text \<open>
  \<open>jwt.verify\<close> and the lookup in \<open>profiles\<close> are parameters: \<open>jwt_verify\<close> gives the
  decoded claims \<open>userId\<close> and \<open>sub\<close>, or \<open>None\<close> where the library throws;
  \<open>find_profile\<close> gives e-mail and role of the profile row, or \<open>None\<close>. A middleware
  either answers the request itself (\<open>Inl\<close> the status) or passes it on (\<open>Inr\<close>).
\<close>

type_synonym jwt_claims = "string option \<times> string option"

definition bearer_token :: "string \<Rightarrow> string" where
  "bearer_token authHeader =
     (if take 7 authHeader = ''Bearer ''
      then takeWhile (\<lambda>c. c \<noteq> CHR 0x20) (drop 7 authHeader)
      else authHeader)"

definition truthy :: "string option \<Rightarrow> bool" where
  "truthy v = (case v of None \<Rightarrow> False | Some s \<Rightarrow> s \<noteq> [])"

definition authenticateToken ::
  "(string \<Rightarrow> jwt_claims option) \<Rightarrow> (string \<Rightarrow> (string \<times> string) option) \<Rightarrow>
   request \<Rightarrow> nat + request" where
  "authenticateToken jwt_verify find_profile req =
     (let token0 = (if truthy (authorization req)
                    then map_option bearer_token (authorization req) else None);
          token = (if \<not> truthy token0 \<and> truthy (query_token req) then query_token req else token0)
      in if \<not> truthy token then Inl 401
         else
           (case jwt_verify (the token) of
              None \<Rightarrow> Inl 401
            | Some (claim_userId, claim_sub) \<Rightarrow>
                (let uid = (if truthy claim_userId then claim_userId else claim_sub)
                 in if \<not> truthy uid then Inl 401
                    else
                      (case find_profile (the uid) of
                         None \<Rightarrow> Inl 401
                       | Some (profile_email, profile_role) \<Rightarrow>
                           Inr (req\<lparr>user := Some \<lparr>userId = the uid, email = profile_email,
                                                  role = profile_role\<rparr>\<rparr>)))))"

definition isAdmin :: "request \<Rightarrow> nat + request" where
  "isAdmin req =
     (case user req of
        None \<Rightarrow> Inl 401
      | Some u \<Rightarrow> if role u \<noteq> ''admin'' then Inl 403 else Inr req)"

datatype middleware = AuthenticateToken | IsAdmin

fun run_chain ::
  "(string \<Rightarrow> jwt_claims option) \<Rightarrow> (string \<Rightarrow> (string \<times> string) option) \<Rightarrow>
   middleware list \<Rightarrow> request \<Rightarrow> nat + request" where
  "run_chain jwt_verify find_profile [] req = Inr req"
| "run_chain jwt_verify find_profile (m # ms) req =
     (case (case m of AuthenticateToken \<Rightarrow> authenticateToken jwt_verify find_profile req
                    | IsAdmin \<Rightarrow> isAdmin req) of
        Inl st \<Rightarrow> Inl st
      | Inr req' \<Rightarrow> run_chain jwt_verify find_profile ms req')"

text \<open>The \<open>app.use\<close> calls of \<open>index.js\<close> that mount a router, in source order.\<close>

definition mounts :: "(string \<times> middleware list) list" where
  "mounts =
     [(''/api/auth'', []),
      (''/api/property-views'', []),
      (''/api/dashboard'', [AuthenticateToken]),
      (''/api/properties'', [AuthenticateToken]),
      (''/api/testimonials'', [AuthenticateToken]),
      (''/api/contact-submissions'', [AuthenticateToken]),
      (''/api/property-inquiries'', [AuthenticateToken]),
      (''/api/faqs'', [AuthenticateToken]),
      (''/api/blogs'', [AuthenticateToken]),
      (''/api/analytics'', [AuthenticateToken]),
      (''/api/profile'', [AuthenticateToken]),
      (''/api/users'', [AuthenticateToken, IsAdmin]),
      (''/api/agents'', [AuthenticateToken, IsAdmin]),
      (''/api/notifications'', [])]"

text \<open>
  \<open>POST /api/property-views/:id\<close> as the application serves it: the middleware of the
  mount, then the handler. \<open>Inl\<close> is the status a middleware answered with.
\<close>

definition post_property_views ::
  "(string \<Rightarrow> jwt_claims option) \<Rightarrow> (string \<Rightarrow> (string \<times> string) option) \<Rightarrow>
   (json_row \<Rightarrow> 'db \<Rightarrow> db_error + 'db) \<Rightarrow> (string \<Rightarrow> 'db \<Rightarrow> db_error + nat) \<Rightarrow>
   string \<Rightarrow> request \<Rightarrow> 'db \<Rightarrow> nat + response \<times> 'db \<times> store_op list" where
  "post_property_views jwt_verify find_profile ins cnt now_iso req db =
     (case map_of mounts ''/api/property-views'' of
        None \<Rightarrow> Inl 404
      | Some ms \<Rightarrow>
          (case run_chain jwt_verify find_profile ms req of
             Inl st \<Rightarrow> Inl st
           | Inr req' \<Rightarrow> Inr (recordView ins cnt now_iso req' db)))"


section \<open>Dashboard statistics and their cache\<close>

text \<open>
  The answer of the store to one count query, \<open>{ count, error }\<close>, and the outcome of
  the \<open>Promise.all\<close> over the four queries: rejected with a message, or resolved with
  the four answers in source order (verified properties, active profiles, pending
  property inquiries, pending contact submissions). The store client reports a failed
  query by resolving with an \<open>error\<close>; the handler also catches a rejection.
\<close>

record query_result =
  count :: "nat option"
  error :: "string option"

datatype outcome = Rejected string | Resolved query_result query_result query_result query_result

datatype count_query = CountWhere string string string

definition stats_queries :: "count_query list" where
  "stats_queries =
     [CountWhere ''properties'' ''verified'' ''true'',
      CountWhere ''profiles'' ''status'' ''active'',
      CountWhere ''property_inquiries'' ''status'' ''pending'',
      CountWhere ''contact_submissions'' ''status'' ''pending'']"

record stats =
  totalProperties :: nat
  activeUsers :: nat
  pendingInquiries :: nat

text \<open>The module-level \<open>statsCache\<close>; times are milliseconds, as \<open>Date.now()\<close> gives them.\<close>

record stats_cache =
  data :: "stats option"
  timestamp :: int

definition cacheDuration :: int where
  "cacheDuration = 4000"

definition initial_cache :: stats_cache where
  "initial_cache = \<lparr>data = None, timestamp = 0\<rparr>"

text \<open>
  What a caller is answered: status 200 with the statistics, status 500 with the error's
  message, or the status 408 of the handler's timer.
\<close>

datatype stats_response = Ok stats | Failed string | TimedOut

text \<open>
  \<open>let x = 0; if (q.error) { log } else { x = q.count || 0 }\<close>: the component a query
  contributes.
\<close>

definition component :: "query_result \<Rightarrow> nat" where
  "component q =
     (case error q of
        Some e \<Rightarrow> 0
      | None \<Rightarrow> (case count q of None \<Rightarrow> 0 | Some n \<Rightarrow> n))"

text \<open>
  \<open>router.get('/stats')\<close> runs in pieces, and pieces of several requests interleave:
  the handler up to its \<open>await\<close>, the callback of its five-second timer, and the
  handler from the \<open>await\<close> on. The server holds the cache and, for every request
  waiting for its queries, the clock reading it took and whether its timer has fired.
  Requests are told apart by a number. A piece yields what it makes visible: count
  queries issued, an answer sent, or the error the handler ends with when it answers a
  request that the timer has answered already (\<open>res.json\<close> throws, in the \<open>try\<close> and
  again in the \<open>catch\<close>).
\<close>

datatype effect = Query nat count_query | Respond nat stats_response | Unhandled nat

record server =
  statsCache :: stats_cache
  waiting :: "(nat \<times> int \<times> bool) list"

text \<open>
  The handler up to the \<open>await\<close>: a payload younger than \<open>cacheDuration\<close> is the
  answer; otherwise the timer is set and the four queries are issued.
\<close>

definition get_stats :: "nat \<Rightarrow> int \<Rightarrow> server \<Rightarrow> effect list \<times> server" where
  "get_stats i now s =
     (let compute = (map (Query i) stats_queries, s\<lparr>waiting := (i, now, False) # waiting s\<rparr>)
      in case data (statsCache s) of
           None \<Rightarrow> compute
         | Some cached \<Rightarrow>
             if now - timestamp (statsCache s) < cacheDuration
             then ([Respond i (Ok cached)], s)
             else compute)"

text \<open>The timer's callback: it runs only while the request waits, and once.\<close>

definition stats_timeout :: "nat \<Rightarrow> server \<Rightarrow> effect list \<times> server" where
  "stats_timeout i s =
     (case map_of (waiting s) i of
        None \<Rightarrow> ([], s)
      | Some (now, fired) \<Rightarrow>
          if fired then ([], s)
          else ([Respond i TimedOut],
                s\<lparr>waiting := map (\<lambda>(j, w). if j = i then (j, fst w, True) else (j, w))
                                  (waiting s)\<rparr>))"

text \<open>
  The handler from the \<open>await\<close> on, with the outcome of the batch. The timer is
  cleared. A rejection is thrown on and answered with status 500. A resolved batch is
  turned into the statistics, which are written to the cache before they are sent.
\<close>

definition stats_settled :: "nat \<Rightarrow> outcome \<Rightarrow> server \<Rightarrow> effect list \<times> server" where
  "stats_settled i result s =
     (case map_of (waiting s) i of
        None \<Rightarrow> ([], s)
      | Some (now, fired) \<Rightarrow>
          (let s' = s\<lparr>waiting := filter (\<lambda>(j, w). j \<noteq> i) (waiting s)\<rparr>
           in case result of
                Rejected msg \<Rightarrow>
                  (if fired then [Unhandled i] else [Respond i (Failed msg)], s')
              | Resolved propertiesQuery usersQuery propertyInquiriesQuery
                         contactSubmissionsQuery \<Rightarrow>
                  (let totalPendingInquiries =
                         component propertyInquiriesQuery + component contactSubmissionsQuery;
                       responseData = \<lparr>totalProperties = component propertiesQuery,
                                       activeUsers = component usersQuery,
                                       pendingInquiries = totalPendingInquiries\<rparr>
                   in (if fired then [Unhandled i] else [Respond i (Ok responseData)],
                       s'\<lparr>statsCache := \<lparr>data = Some responseData, timestamp = now\<rparr>\<rparr>))))"

text \<open>
  What happens at the server: a request arrives and reads the clock, a timer fires, a
  batch settles. The order of these events is the scheduler's.
\<close>

datatype event = Arrive nat int | TimerFires nat | Settles nat outcome

fun step :: "event \<Rightarrow> server \<Rightarrow> effect list \<times> server" where
  "step (Arrive i now) s = get_stats i now s"
| "step (TimerFires i) s = stats_timeout i s"
| "step (Settles i result) s = stats_settled i result s"

fun run :: "event list \<Rightarrow> server \<Rightarrow> effect list \<times> server" where
  "run [] s = ([], s)"
| "run (e # es) s =
     (case step e s of
        (out, s') \<Rightarrow> (case run es s' of (outs, s'') \<Rightarrow> (out @ outs, s'')))"

section \<open>Properties of the store\<close>

text \<open>
  The handler's payload names the three keys \<open>property_id\<close>, \<open>viewed_date\<close> and
  \<open>user_id\<close>; it has no \<open>ip_address\<close>, and \<open>user_id\<close> is no column of the table.
  An insert the table accepts carries an \<open>ip_address\<close>, so the table rejects every
  payload of the handler, and no call of the POST handler is answered with status 200.
\<close>

lemma trim_prop_1: "trim ''prop-1'' = ''prop-1''"
  by (simp add: trim_def is_ws_def)

lemma trim_blank: "trim ''   '' = []"
  by (simp add: trim_def is_ws_def)

lemma view_payload_keys:
  "map fst (view_payload P now_iso req) = [''property_id'', ''viewed_date'', ''user_id'']"
  by (simp add: view_payload_def)

lemma view_payload_no_ip: "map_of (view_payload P now_iso req) ''ip_address'' = None"
  by (simp add: view_payload_def)

lemma pv_insert_view_payload:
  "pv_insert db_now (view_payload P now_iso req) t = Inl (UndefinedColumn ''user_id'')"
  by (simp add: pv_insert_def view_payload_def property_views_columns_def)

lemma pv_insert_stages:
  "pv_insert db_now p t = Inr t' \<Longrightarrow>
   \<exists>r addr. not_null None (cell p ''ip_address'') = Some addr \<and> insert_row r t = Inr t'"
  unfolding pv_insert_def
  by (simp split: list.splits option.splits) blast

lemma pv_insert_needs_ip:
  "pv_insert db_now p t = Inr t' \<Longrightarrow> \<exists>a. map_of p ''ip_address'' = Some (Some a)"
proof -
  assume "pv_insert db_now p t = Inr t'"
  then obtain addr where "not_null None (cell p ''ip_address'') = Some addr"
    using pv_insert_stages by blast
  then show ?thesis
    by (auto simp: not_null_def cell_def split: option.splits cell.splits)
qed

lemma pv_insert_inserts_row:
  "pv_insert db_now p t = Inr t' \<Longrightarrow> \<exists>r. insert_row r t = Inr t'"
  using pv_insert_stages by blast

lemma recordView_store_unchanged:
  "fst (snd (recordView (pv_insert db_now) pv_count now_iso req t)) = t"
  by (cases "params_id req")
     (simp_all add: recordView_def pv_insert_view_payload Let_def)

lemma recordViews_store_unchanged:
  "snd (recordViews (pv_insert db_now) pv_count calls t) = t"
proof (induction calls arbitrary: t)
  case Nil
  show ?case by simp
next
  case (Cons c calls)
  obtain now_iso req where c: "c = (now_iso, req)" by (cases c)
  obtain res t' ops where r: "recordView (pv_insert db_now) pv_count now_iso req t = (res, t', ops)"
    by (cases "recordView (pv_insert db_now) pv_count now_iso req t")
  with recordView_store_unchanged [of db_now now_iso req t] have "t' = t" by simp
  with Cons.IH [of t] c r show ?case by (cases "recordViews (pv_insert db_now) pv_count calls t") simp
qed

lemma recordView_never_200:
  "status (fst (recordView (pv_insert db_now) pv_count now_iso req t)) \<noteq> 200"
  by (cases "params_id req")
     (simp_all add: recordView_def pv_insert_view_payload Let_def)

text \<open>
  The input functions at work: a \<open>uuid\<close> in upper case is stored in lower case, and
  two notations of one day meet in the unique index.
\<close>

lemma uuid_example:
  "uuid_in ''a0eebc99-9c0b-4ef8-bb6d-6bb9bd380a11'' = Some ''a0eebc99-9c0b-4ef8-bb6d-6bb9bd380a11''"
  by code_simp

lemma uuid_prop_1: "uuid_in ''prop-1'' = None"
  by code_simp

lemma uuid_empty: "uuid_in [] = None"
  by code_simp

lemma trim_uuid_example:
  "trim ''a0eebc99-9c0b-4ef8-bb6d-6bb9bd380a11'' = ''a0eebc99-9c0b-4ef8-bb6d-6bb9bd380a11''"
  by (simp add: trim_def is_ws_def)

lemma date_of_example: "date_of ''2024-01-01T10:00:00.000Z'' = Some ''2024-01-01''"
  by code_simp

lemma date_of_short_example: "date_of ''2024-1-1'' = Some ''2024-01-01''"
  by code_simp

lemma pv_insert_accepts_complete_row_example:
  "pv_insert ''2024-01-01T10:00:00.000Z''
     [(''property_id'', Some ''A0EEBC99-9C0B-4EF8-BB6D-6BB9BD380A11''),
      (''ip_address'', Some ''1.2.3.4''),
      (''viewed_date'', Some ''2024-01-01T10:00:00.000Z'')] []
   = Inr [\<lparr>property_id = ''a0eebc99-9c0b-4ef8-bb6d-6bb9bd380a11'', profiles_id = None,
           viewed_at = ''2024-01-01T10:00:00.000Z'', ip_address = ''1.2.3.4'',
           viewed_date = ''2024-01-01''\<rparr>]"
  by code_simp

lemma pv_insert_rejects_duplicate_example:
  "pv_insert ''2024-01-01T23:59:00.000Z''
     [(''property_id'', Some ''a0eebc99-9c0b-4ef8-bb6d-6bb9bd380a11''),
      (''ip_address'', Some ''1.2.3.4''),
      (''viewed_date'', Some ''2024-1-1'')]
     [\<lparr>property_id = ''a0eebc99-9c0b-4ef8-bb6d-6bb9bd380a11'', profiles_id = None,
       viewed_at = ''2024-01-01T10:00:00.000Z'', ip_address = ''1.2.3.4'',
       viewed_date = ''2024-01-01''\<rparr>]
   = Inl (UniqueViolation ''unique_ip_view_24h'')"
  by code_simp

text \<open>
  The unique index as an invariant: a table reached by inserts alone holds at most one
  row for each combination of property, address and day.
\<close>

lemma insert_row_appends:
  "insert_row r t = Inr t' \<Longrightarrow>
   t' = t @ [r] \<and> unique_ip_view_24h r \<notin> set (map unique_ip_view_24h t)"
  by (auto simp: insert_row_def split: if_splits)

lemma reachable_unique:
  "reachable t \<Longrightarrow> distinct (map unique_ip_view_24h t)"
proof (induction rule: reachable.induct)
  case empty_table
  show ?case by simp
next
  case (inserted t r t')
  from insert_row_appends [OF inserted.hyps(2)]
  have "t' = t @ [r]" and "unique_ip_view_24h r \<notin> set (map unique_ip_view_24h t)" by simp_all
  with inserted.IH show ?case by simp
qed

lemma reachable_pv_insert:
  "reachable t \<Longrightarrow> pv_insert db_now p t = Inr t' \<Longrightarrow> reachable t'"
  using pv_insert_inserts_row reachable.inserted by blast

lemma distinct_key_at_most_one:
  "distinct (map f t) \<Longrightarrow> length (filter (\<lambda>r. f r = k) t) \<le> 1"
proof (induction t)
  case Nil
  show ?case by simp
next
  case (Cons a t)
  show ?case
  proof (cases "f a = k")
    case True
    with Cons.prems have "\<forall>r\<in>set t. f r \<noteq> k" by (auto simp: image_iff)
    then have "filter (\<lambda>r. f r = k) t = []" by (simp add: filter_empty_conv)
    with True show ?thesis by simp
  next
    case False
    with Cons show ?thesis by simp
  qed
qed

lemma reachable_at_most_one:
  "reachable t \<Longrightarrow> length (filter (\<lambda>r. unique_ip_view_24h r = k) t) \<le> 1"
  by (rule distinct_key_at_most_one) (rule reachable_unique)

text \<open>
  Row level security: the anonymous client sees no row of the table, so its count is 0
  for every identifier that is a \<open>uuid\<close>, whatever the table holds; the service-role
  client counts the rows of the property.
\<close>

lemma anon_sees_no_row: "\<not> visible Anon r"
  by (simp add: visible_def property_views_policies_def)

lemma pv_count_anon:
  "pv_count P t = (case uuid_in P of None \<Rightarrow> Inl (InvalidInput ''property_id'') | Some u \<Rightarrow> Inr 0)"
  by (simp add: pv_count_def select_count_def anon_sees_no_row split: option.splits)

lemma select_count_service_role:
  "uuid_in P = Some u \<Longrightarrow>
   select_count ServiceRole P t = Inr (length (filter (\<lambda>r. property_id r = u) t))"
  by (simp add: select_count_def visible_def)

section \<open>Recording a view\<close>

text \<open>
  C1, as stated, fails: with a row for property \<open>prop-1\<close>, address \<open>1.2.3.4\<close> and day
  \<open>2024-01-01\<close> stored, a further call on that day is answered with status 500 and
  \<open>success: false\<close>, not with the current count. The same holds for a store that
  answers the insert with the uniqueness conflict of \<open>unique_ip_view_24h\<close>: the
  handler throws every insert error.
\<close>

theorem recordView_duplicate_counterexample:
  "recordView (pv_insert ''2024-01-01T23:59:00.000Z'') pv_count ''2024-01-01T23:59:00.000Z''
     \<lparr>params_id = Some ''prop-1'', user = None, ip = Some ''1.2.3.4'',
      authorization = None, query_token = None\<rparr>
     [\<lparr>property_id = ''prop-1'', profiles_id = None, viewed_at = ''2024-01-01T10:00:00.000Z'',
       ip_address = ''1.2.3.4'', viewed_date = ''2024-01-01''\<rparr>]
   = (\<lparr>status = 500, body = Failure ''Failed to record property view''\<rparr>,
      [\<lparr>property_id = ''prop-1'', profiles_id = None, viewed_at = ''2024-01-01T10:00:00.000Z'',
        ip_address = ''1.2.3.4'', viewed_date = ''2024-01-01''\<rparr>],
      [InsertView [(''property_id'', Some ''prop-1''),
                   (''viewed_date'', Some ''2024-01-01T23:59:00.000Z''),
                   (''user_id'', None)]])
   \<and> fst (recordView (\<lambda>p t. Inl (UniqueViolation ''unique_ip_view_24h'')) pv_count
          ''2024-01-01T23:59:00.000Z''
          \<lparr>params_id = Some ''prop-1'', user = None, ip = Some ''1.2.3.4'',
           authorization = None, query_token = None\<rparr>
          [\<lparr>property_id = ''prop-1'', profiles_id = None, viewed_at = ''2024-01-01T10:00:00.000Z'',
            ip_address = ''1.2.3.4'', viewed_date = ''2024-01-01''\<rparr>])
     = \<lparr>status = 500, body = Failure ''Failed to record property view''\<rparr>"
  by (simp add: recordView_def trim_prop_1 pv_insert_view_payload Let_def)
     (simp add: view_payload_def)

text \<open>
  C1, amended: whenever the store rejects the insert of a call with a non-empty property
  identifier, a uniqueness conflict included, the caller receives status 500 with
  \<open>Failed to record property view\<close>, the store is as before and the count is not
  read.
\<close>

theorem recordView_insert_error:
  "params_id req = Some raw \<Longrightarrow> trim raw \<noteq> [] \<Longrightarrow>
   ins (view_payload (trim raw) now_iso req) db = Inl e \<Longrightarrow>
   recordView ins cnt now_iso req db =
     (\<lparr>status = 500, body = Failure ''Failed to record property view''\<rparr>, db,
      [InsertView (view_payload (trim raw) now_iso req)])"
  by (simp add: recordView_def Let_def)

theorem recordView_insert_error_witness:
  "trim ''prop-1'' \<noteq> [] \<and>
   recordView (\<lambda>p t. Inl (UniqueViolation ''unique_ip_view_24h'')) pv_count
     ''2024-01-01T23:59:00.000Z''
     \<lparr>params_id = Some ''prop-1'', user = None, ip = Some ''1.2.3.4'',
      authorization = None, query_token = None\<rparr>
     [\<lparr>property_id = ''prop-1'', profiles_id = None, viewed_at = ''2024-01-01T10:00:00.000Z'',
       ip_address = ''1.2.3.4'', viewed_date = ''2024-01-01''\<rparr>]
   = (\<lparr>status = 500, body = Failure ''Failed to record property view''\<rparr>,
      [\<lparr>property_id = ''prop-1'', profiles_id = None, viewed_at = ''2024-01-01T10:00:00.000Z'',
        ip_address = ''1.2.3.4'', viewed_date = ''2024-01-01''\<rparr>],
      [InsertView [(''property_id'', Some ''prop-1''),
                   (''viewed_date'', Some ''2024-01-01T23:59:00.000Z''),
                   (''user_id'', None)]])"
  using recordView_insert_error
    [of "\<lparr>params_id = Some ''prop-1'', user = None, ip = Some ''1.2.3.4'',
          authorization = None, query_token = None\<rparr>"
        "''prop-1''" "\<lambda>p t. Inl (UniqueViolation ''unique_ip_view_24h'')"
        "''2024-01-01T23:59:00.000Z''"
        "[\<lparr>property_id = ''prop-1'', profiles_id = None, viewed_at = ''2024-01-01T10:00:00.000Z'',
           ip_address = ''1.2.3.4'', viewed_date = ''2024-01-01''\<rparr>]"
        "UniqueViolation ''unique_ip_view_24h''" pv_count]
  by (simp add: trim_prop_1 view_payload_def)

text \<open>
  C2: the specification expects calls for the same property, address and day to leave
  exactly one row. Two such calls on the empty table leave no row, and both are answered
  with status 500: the payload has no \<open>ip_address\<close>, which the table requires.
\<close>

theorem recordViews_same_triple_no_row:
  "recordViews (pv_insert ''2024-01-01T10:00:00.000Z'') pv_count
     [(''2024-01-01T10:00:00.000Z'',
       \<lparr>params_id = Some ''prop-1'', user = None, ip = Some ''1.2.3.4'',
        authorization = None, query_token = None\<rparr>),
      (''2024-01-01T10:00:00.000Z'',
       \<lparr>params_id = Some ''prop-1'', user = None, ip = Some ''1.2.3.4'',
        authorization = None, query_token = None\<rparr>)]
     []
   = ([\<lparr>status = 500, body = Failure ''Failed to record property view''\<rparr>,
       \<lparr>status = 500, body = Failure ''Failed to record property view''\<rparr>],
      [])"
  by (simp add: recordView_def trim_prop_1 pv_insert_view_payload Let_def)

text \<open>
  C3: the specification expects every row recorded to carry the viewer's address. The
  payload the handler sends for a request from \<open>1.2.3.4\<close> holds the property, the full
  timestamp and a null \<open>user_id\<close>, and no address; the table rejects it and the call is
  answered with status 500.
\<close>

theorem recordView_payload_without_ip:
  "recordView (pv_insert ''2024-01-01T10:00:00.000Z'') pv_count ''2024-01-01T10:00:00.000Z''
     \<lparr>params_id = Some ''prop-1'', user = None, ip = Some ''1.2.3.4'',
      authorization = None, query_token = None\<rparr> []
   = (\<lparr>status = 500, body = Failure ''Failed to record property view''\<rparr>, [],
      [InsertView [(''property_id'', Some ''prop-1''),
                   (''viewed_date'', Some ''2024-01-01T10:00:00.000Z''),
                   (''user_id'', None)]])"
  by (simp add: recordView_def trim_prop_1 pv_insert_view_payload Let_def)
     (simp add: view_payload_def)


text \<open>
  Were an insert of the handler accepted, the call would be answered with the count 0,
  whatever the table holds.
\<close>

lemma recordView_accepted_insert_counts_zero:
  "params_id req = Some raw \<Longrightarrow> uuid_in (trim raw) = Some u \<Longrightarrow>
   ins (view_payload (trim raw) now_iso req) t = Inr t' \<Longrightarrow>
   recordView ins pv_count now_iso req t =
     (\<lparr>status = 200, body = Success 0\<rparr>, t',
      [InsertView (view_payload (trim raw) now_iso req), CountViews (trim raw)])"
proof -
  assume a: "params_id req = Some raw" "uuid_in (trim raw) = Some u"
    "ins (view_payload (trim raw) now_iso req) t = Inr t'"
  from a(2) have "trim raw \<noteq> []" by (auto simp: uuid_empty)
  with a show ?thesis by (simp add: recordView_def Let_def pv_count_anon)
qed

text \<open>
  C5, as stated, fails: a call with a property identifier and no viewer address is not
  refused before the store. The insert is attempted, and the answer is the status 500 of
  a store failure, not a validation failure.
\<close>

theorem recordView_missing_ip_counterexample:
  "recordView (pv_insert ''2024-01-01T10:00:00.000Z'') pv_count ''2024-01-01T10:00:00.000Z''
     \<lparr>params_id = Some ''prop-1'', user = None, ip = None,
      authorization = None, query_token = None\<rparr> []
   = (\<lparr>status = 500, body = Failure ''Failed to record property view''\<rparr>, [],
      [InsertView [(''property_id'', Some ''prop-1''),
                   (''viewed_date'', Some ''2024-01-01T10:00:00.000Z''),
                   (''user_id'', None)]])"
  by (simp add: recordView_def trim_prop_1 pv_insert_view_payload Let_def)
     (simp add: view_payload_def)

text \<open>
  C5, amended: a call whose property identifier is missing, empty or white space only is
  answered with status 400 and \<open>Invalid property ID\<close>, and no store operation is
  attempted.
\<close>

theorem recordView_invalid_id:
  "(\<forall>raw. params_id req = Some raw \<longrightarrow> trim raw = []) \<Longrightarrow>
   recordView ins cnt now_iso req db =
     (\<lparr>status = 400, body = Failure ''Invalid property ID''\<rparr>, db, [])"
  by (cases "params_id req") (simp_all add: recordView_def)

theorem recordView_invalid_id_witness:
  "trim ''   '' = [] \<and>
   recordView (pv_insert ''2024-01-01T10:00:00.000Z'') pv_count ''2024-01-01T10:00:00.000Z''
     \<lparr>params_id = Some ''   '', user = None, ip = Some ''1.2.3.4'',
      authorization = None, query_token = None\<rparr> []
   = (\<lparr>status = 400, body = Failure ''Invalid property ID''\<rparr>, [], [])"
  using recordView_invalid_id
    [of "\<lparr>params_id = Some ''   '', user = None, ip = Some ''1.2.3.4'',
          authorization = None, query_token = None\<rparr>"
        "pv_insert ''2024-01-01T10:00:00.000Z''" pv_count "''2024-01-01T10:00:00.000Z''" "[]"]
  by (simp add: trim_blank)

section \<open>Reading the count\<close>

text \<open>
  The GET handler leaves the table as it is. Its count goes through the anonymous
  client, so it never answers with a positive count; through the service-role client the
  same request is answered with the number of rows of the property. An identifier
  that is no \<open>uuid\<close> is answered with status 500.
\<close>

lemma getViewCount_store_unchanged: "fst (snd (getViewCount cnt req db)) = db"
  by (cases "params_id req") (simp_all add: getViewCount_def split: sum.splits)

lemma getViewCount_never_positive:
  "body (fst (getViewCount pv_count req t)) \<noteq> Success (Suc n)"
  by (cases "params_id req")
     (simp_all add: getViewCount_def pv_count_anon split: option.splits)

lemma getViewCount_service_role_example:
  "getViewCount (select_count ServiceRole)
     \<lparr>params_id = Some ''a0eebc99-9c0b-4ef8-bb6d-6bb9bd380a11'', user = None,
      ip = Some ''1.2.3.4'', authorization = None, query_token = None\<rparr>
     [\<lparr>property_id = ''a0eebc99-9c0b-4ef8-bb6d-6bb9bd380a11'', profiles_id = None,
       viewed_at = ''2024-01-01T10:00:00.000Z'', ip_address = ''1.2.3.4'',
       viewed_date = ''2024-01-01''\<rparr>]
   = (\<lparr>status = 200, body = Success 1\<rparr>,
      [\<lparr>property_id = ''a0eebc99-9c0b-4ef8-bb6d-6bb9bd380a11'', profiles_id = None,
        viewed_at = ''2024-01-01T10:00:00.000Z'', ip_address = ''1.2.3.4'',
        viewed_date = ''2024-01-01''\<rparr>],
      [CountViews ''a0eebc99-9c0b-4ef8-bb6d-6bb9bd380a11''])"
  by (simp add: getViewCount_def trim_uuid_example select_count_service_role [OF uuid_example])

lemma getViewCount_not_uuid_example:
  "getViewCount pv_count
     \<lparr>params_id = Some ''prop-1'', user = None, ip = Some ''1.2.3.4'',
      authorization = None, query_token = None\<rparr> []
   = (\<lparr>status = 500, body = Failure ''Failed to fetch property view count''\<rparr>, [],
      [CountViews ''prop-1''])"
  by (simp add: getViewCount_def trim_prop_1 pv_count_anon uuid_prop_1)

text \<open>
  C6: the specification expects the GET handler to return the number of stored rows of
  the property. With one row of the property stored, the handler answers with the count
  0; the table is left as it was.
\<close>

theorem getViewCount_anonymous_count_zero:
  "getViewCount pv_count
     \<lparr>params_id = Some ''a0eebc99-9c0b-4ef8-bb6d-6bb9bd380a11'', user = None,
      ip = Some ''1.2.3.4'', authorization = None, query_token = None\<rparr>
     [\<lparr>property_id = ''a0eebc99-9c0b-4ef8-bb6d-6bb9bd380a11'', profiles_id = None,
       viewed_at = ''2024-01-01T10:00:00.000Z'', ip_address = ''1.2.3.4'',
       viewed_date = ''2024-01-01''\<rparr>]
   = (\<lparr>status = 200, body = Success 0\<rparr>,
      [\<lparr>property_id = ''a0eebc99-9c0b-4ef8-bb6d-6bb9bd380a11'', profiles_id = None,
        viewed_at = ''2024-01-01T10:00:00.000Z'', ip_address = ''1.2.3.4'',
        viewed_date = ''2024-01-01''\<rparr>],
      [CountViews ''a0eebc99-9c0b-4ef8-bb6d-6bb9bd380a11''])"
  by (simp add: getViewCount_def trim_uuid_example pv_count_anon uuid_example)

text \<open>
  A store that cannot answer the count: both handlers answer with status 500. The POST
  handler has inserted its row by then, and the row stays.
\<close>

lemma getViewCount_store_error:
  "params_id req = Some raw \<Longrightarrow> trim raw \<noteq> [] \<Longrightarrow> cnt (trim raw) db = Inl e \<Longrightarrow>
   getViewCount cnt req db =
     (\<lparr>status = 500, body = Failure ''Failed to fetch property view count''\<rparr>, db,
      [CountViews (trim raw)])"
  by (simp add: getViewCount_def)

lemma recordView_count_error:
  "params_id req = Some raw \<Longrightarrow> trim raw \<noteq> [] \<Longrightarrow>
   ins (view_payload (trim raw) now_iso req) db = Inr db' \<Longrightarrow> cnt (trim raw) db' = Inl e \<Longrightarrow>
   recordView ins cnt now_iso req db =
     (\<lparr>status = 500, body = Failure ''Failed to record property view''\<rparr>, db',
      [InsertView (view_payload (trim raw) now_iso req), CountViews (trim raw)])"
  by (simp add: recordView_def Let_def)

lemma getViewCount_unavailable_example:
  "getViewCount (\<lambda>P t. Inl (Unavailable ''connection refused''))
     \<lparr>params_id = Some ''prop-1'', user = None, ip = Some ''1.2.3.4'',
      authorization = None, query_token = None\<rparr> ([] :: pv_row list)
   = (\<lparr>status = 500, body = Failure ''Failed to fetch property view count''\<rparr>, [],
      [CountViews ''prop-1''])"
  by (simp add: getViewCount_def trim_prop_1)

section \<open>The viewer's profile\<close>

text \<open>
  Where \<open>authenticateToken\<close> passes a request on, it has set \<open>req.user\<close>; the mount of
  the property-view routes runs no middleware.
\<close>

lemma authenticateToken_sets_user:
  "authenticateToken jwt_verify find_profile req = Inr req' \<Longrightarrow> user req' \<noteq> None"
  by (auto simp: authenticateToken_def Let_def split: if_splits option.splits prod.splits)

lemma authenticateToken_example:
  "authenticateToken
     (\<lambda>tk. if tk = ''good-token'' then Some (Some ''user-7'', None) else None)
     (\<lambda>uid. if uid = ''user-7'' then Some (''a@example.org'', ''admin'') else None)
     \<lparr>params_id = Some ''prop-1'', user = None, ip = Some ''1.2.3.4'',
      authorization = Some ''Bearer good-token'', query_token = None\<rparr>
   = Inr \<lparr>params_id = Some ''prop-1'',
          user = Some \<lparr>userId = ''user-7'', email = ''a@example.org'', role = ''admin''\<rparr>,
          ip = Some ''1.2.3.4'',
          authorization = Some ''Bearer good-token'', query_token = None\<rparr>"
  by (simp add: authenticateToken_def truthy_def bearer_token_def Let_def)

lemma property_views_mount: "map_of mounts ''/api/property-views'' = Some []"
  by (simp add: mounts_def)

lemma recordView_ops:
  "InsertView p \<in> set (snd (snd (recordView ins cnt now_iso req db))) \<Longrightarrow>
   \<exists>P. p = view_payload P now_iso req"
  by (cases "params_id req")
     (auto simp: recordView_def Let_def split: if_splits sum.splits)

text \<open>
  C10: a request arrives without \<open>req.user\<close>, and the mount of
  \<open>/api/property-views\<close> hands it to the handler as it is, whatever credentials it
  carries. Every payload the handler then sends to the store has a null \<open>user_id\<close>.
\<close>

theorem post_property_views_user_id_null:
  "user req = None \<Longrightarrow>
   post_property_views jwt_verify find_profile ins cnt now_iso req db =
     Inr (recordView ins cnt now_iso req db) \<and>
   (\<forall>p. InsertView p \<in> set (snd (snd (recordView ins cnt now_iso req db))) \<longrightarrow>
        map_of p ''user_id'' = Some None)"
proof
  show "post_property_views jwt_verify find_profile ins cnt now_iso req db =
     Inr (recordView ins cnt now_iso req db)"
    by (simp add: post_property_views_def property_views_mount)
next
  assume u: "user req = None"
  show "\<forall>p. InsertView p \<in> set (snd (snd (recordView ins cnt now_iso req db))) \<longrightarrow>
        map_of p ''user_id'' = Some None"
  proof (intro allI impI)
    fix p
    assume "InsertView p \<in> set (snd (snd (recordView ins cnt now_iso req db)))"
    from recordView_ops [OF this] obtain P where "p = view_payload P now_iso req" ..
    with u show "map_of p ''user_id'' = Some None" by (simp add: view_payload_def)
  qed
qed

theorem post_property_views_user_id_null_witness:
  "user \<lparr>params_id = Some ''prop-1'', user = None, ip = Some ''1.2.3.4'',
         authorization = Some ''Bearer good-token'', query_token = None\<rparr> = None \<and>
   post_property_views
     (\<lambda>tk. if tk = ''good-token'' then Some (Some ''user-7'', None) else None)
     (\<lambda>uid. if uid = ''user-7'' then Some (''a@example.org'', ''admin'') else None)
     (\<lambda>p t. Inr (t @ [p])) (\<lambda>P t. Inr (length t))
     ''2024-01-01T10:00:00.000Z''
     \<lparr>params_id = Some ''prop-1'', user = None, ip = Some ''1.2.3.4'',
      authorization = Some ''Bearer good-token'', query_token = None\<rparr> []
   = Inr (\<lparr>status = 200, body = Success 1\<rparr>,
          [[(''property_id'', Some ''prop-1''),
            (''viewed_date'', Some ''2024-01-01T10:00:00.000Z''),
            (''user_id'', None)]],
          [InsertView [(''property_id'', Some ''prop-1''),
                       (''viewed_date'', Some ''2024-01-01T10:00:00.000Z''),
                       (''user_id'', None)],
           CountViews ''prop-1''])
   \<and> map_of [(''property_id'', Some ''prop-1''),
             (''viewed_date'', Some ''2024-01-01T10:00:00.000Z''),
             (''user_id'', None)] ''user_id'' = Some None"
  using post_property_views_user_id_null
    [of "\<lparr>params_id = Some ''prop-1'', user = None, ip = Some ''1.2.3.4'',
          authorization = Some ''Bearer good-token'', query_token = None\<rparr>"
        "\<lambda>tk. if tk = ''good-token'' then Some (Some ''user-7'', None) else None"
        "\<lambda>uid. if uid = ''user-7'' then Some (''a@example.org'', ''admin'') else None"
        "\<lambda>p t. Inr (t @ [p])" "\<lambda>P t. Inr (length t)" "''2024-01-01T10:00:00.000Z''" "[]"]
  by (simp add: recordView_def trim_prop_1 view_payload_def Let_def)

section \<open>The statistics cache\<close>




lemma stats_settled_resolved:
  "map_of (waiting s) i = Some (now, fired) \<Longrightarrow>
   stats_settled i (Resolved q1 q2 q3 q4) s =
     (if fired then [Unhandled i]
      else [Respond i (Ok \<lparr>totalProperties = component q1, activeUsers = component q2,
                           pendingInquiries = component q3 + component q4\<rparr>)],
      s\<lparr>waiting := filter (\<lambda>(j, w). j \<noteq> i) (waiting s),
        statsCache := \<lparr>data = Some \<lparr>totalProperties = component q1, activeUsers = component q2,
                                     pendingInquiries = component q3 + component q4\<rparr>,
                       timestamp = now\<rparr>\<rparr>)"
  by (simp add: stats_settled_def Let_def)

lemma stats_settled_rejected:
  "map_of (waiting s) i = Some (now, fired) \<Longrightarrow>
   stats_settled i (Rejected msg) s =
     (if fired then [Unhandled i] else [Respond i (Failed msg)],
      s\<lparr>waiting := filter (\<lambda>(j, w). j \<noteq> i) (waiting s)\<rparr>)"
  by (simp add: stats_settled_def Let_def)

lemma stats_timeout_fires:
  "map_of (waiting s) i = Some (now, False) \<Longrightarrow>
   fst (stats_timeout i s) = [Respond i TimedOut] \<and>
   statsCache (snd (stats_timeout i s)) = statsCache s"
  by (simp add: stats_timeout_def)




text \<open>
  C8, as stated, fails: the store client reports a failed query by resolving with an
  error, and the handler then overwrites the cache. With a payload of 4000 ms ago
  cached, a request whose four queries all fail replaces it by zeros and is answered
  with success; with nothing cached, the zeros are cached and the failure is not passed
  on.
\<close>

theorem stats_failed_queries_overwrite_counterexample:
  "run [Arrive 1 1700000004000,
        Settles 1 (Resolved \<lparr>count = None, error = Some ''connection refused''\<rparr>
                            \<lparr>count = None, error = Some ''connection refused''\<rparr>
                            \<lparr>count = None, error = Some ''connection refused''\<rparr>
                            \<lparr>count = None, error = Some ''connection refused''\<rparr>)]
       \<lparr>statsCache = \<lparr>data = Some \<lparr>totalProperties = 40, activeUsers = 12, pendingInquiries = 5\<rparr>,
                       timestamp = 1700000000000\<rparr>,
        waiting = []\<rparr>
   = ([Query 1 (CountWhere ''properties'' ''verified'' ''true''),
       Query 1 (CountWhere ''profiles'' ''status'' ''active''),
       Query 1 (CountWhere ''property_inquiries'' ''status'' ''pending''),
       Query 1 (CountWhere ''contact_submissions'' ''status'' ''pending''),
       Respond 1 (Ok \<lparr>totalProperties = 0, activeUsers = 0, pendingInquiries = 0\<rparr>)],
      \<lparr>statsCache = \<lparr>data = Some \<lparr>totalProperties = 0, activeUsers = 0, pendingInquiries = 0\<rparr>,
                      timestamp = 1700000004000\<rparr>,
       waiting = []\<rparr>)
   \<and> run [Arrive 1 1700000004000,
          Settles 1 (Resolved \<lparr>count = None, error = Some ''connection refused''\<rparr>
                              \<lparr>count = None, error = Some ''connection refused''\<rparr>
                              \<lparr>count = None, error = Some ''connection refused''\<rparr>
                              \<lparr>count = None, error = Some ''connection refused''\<rparr>)]
         \<lparr>statsCache = \<lparr>data = None, timestamp = 0\<rparr>, waiting = []\<rparr>
     = ([Query 1 (CountWhere ''properties'' ''verified'' ''true''),
         Query 1 (CountWhere ''profiles'' ''status'' ''active''),
         Query 1 (CountWhere ''property_inquiries'' ''status'' ''pending''),
         Query 1 (CountWhere ''contact_submissions'' ''status'' ''pending''),
         Respond 1 (Ok \<lparr>totalProperties = 0, activeUsers = 0, pendingInquiries = 0\<rparr>)],
        \<lparr>statsCache = \<lparr>data = Some \<lparr>totalProperties = 0, activeUsers = 0, pendingInquiries = 0\<rparr>,
                        timestamp = 1700000004000\<rparr>,
         waiting = []\<rparr>)"
  by (simp add: get_stats_def stats_settled_def stats_queries_def component_def
                cacheDuration_def Let_def)

text \<open>
  C8, amended: for a request that has to compute and whose timer has not fired, queries
  that all fail by resolving with an error are not passed on as a failure: the request
  is answered with success and zeros, which overwrite the cache slot with the request's
  time. Only a rejected batch leaves the cache slot exactly as it was, and it is answered
  with status 500 whether or not a payload is cached.
\<close>

theorem stats_failure_handling:
  "map_of (waiting s) i = Some (now, False) \<Longrightarrow>
   (error q1 \<noteq> None \<longrightarrow> error q2 \<noteq> None \<longrightarrow> error q3 \<noteq> None \<longrightarrow> error q4 \<noteq> None \<longrightarrow>
      step (Settles i (Resolved q1 q2 q3 q4)) s =
        ([Respond i (Ok \<lparr>totalProperties = 0, activeUsers = 0, pendingInquiries = 0\<rparr>)],
         s\<lparr>waiting := filter (\<lambda>(j, w). j \<noteq> i) (waiting s),
           statsCache := \<lparr>data = Some \<lparr>totalProperties = 0, activeUsers = 0,
                                        pendingInquiries = 0\<rparr>,
                          timestamp = now\<rparr>\<rparr>))
   \<and> step (Settles i (Rejected msg)) s =
       ([Respond i (Failed msg)], s\<lparr>waiting := filter (\<lambda>(j, w). j \<noteq> i) (waiting s)\<rparr>)"
  using stats_settled_resolved [of s i now False q1 q2 q3 q4]
        stats_settled_rejected [of s i now False msg]
  by (auto simp: component_def)

theorem stats_failure_handling_witness:
  "step (Settles 1 (Resolved \<lparr>count = None, error = Some ''connection refused''\<rparr>
                             \<lparr>count = None, error = Some ''connection refused''\<rparr>
                             \<lparr>count = None, error = Some ''connection refused''\<rparr>
                             \<lparr>count = None, error = Some ''connection refused''\<rparr>))
     \<lparr>statsCache = \<lparr>data = Some \<lparr>totalProperties = 40, activeUsers = 12, pendingInquiries = 5\<rparr>,
                     timestamp = 1700000000000\<rparr>,
      waiting = [(1, 1700000004000, False)]\<rparr>
   = ([Respond 1 (Ok \<lparr>totalProperties = 0, activeUsers = 0, pendingInquiries = 0\<rparr>)],
      \<lparr>statsCache = \<lparr>data = Some \<lparr>totalProperties = 0, activeUsers = 0, pendingInquiries = 0\<rparr>,
                      timestamp = 1700000004000\<rparr>,
       waiting = []\<rparr>)
   \<and> step (Settles 1 (Rejected ''fetch failed''))
       \<lparr>statsCache = \<lparr>data = Some \<lparr>totalProperties = 40, activeUsers = 12, pendingInquiries = 5\<rparr>,
                       timestamp = 1700000000000\<rparr>,
        waiting = [(1, 1700000004000, False)]\<rparr>
     = ([Respond 1 (Failed ''fetch failed'')],
        \<lparr>statsCache = \<lparr>data = Some \<lparr>totalProperties = 40, activeUsers = 12, pendingInquiries = 5\<rparr>,
                        timestamp = 1700000000000\<rparr>,
         waiting = []\<rparr>)"
  using stats_failure_handling
    [of "\<lparr>statsCache = \<lparr>data = Some \<lparr>totalProperties = 40, activeUsers = 12,
                                        pendingInquiries = 5\<rparr>,
                          timestamp = 1700000000000\<rparr>,
          waiting = [(1, 1700000004000, False)]\<rparr>"
        1 1700000004000
        "\<lparr>count = None, error = Some ''connection refused''\<rparr>"
        "\<lparr>count = None, error = Some ''connection refused''\<rparr>"
        "\<lparr>count = None, error = Some ''connection refused''\<rparr>"
        "\<lparr>count = None, error = Some ''connection refused''\<rparr>"
        "''fetch failed''"]
  by simp




end
